theory Spec2Isabelle
  imports Complex_Main
begin

section \<open>Shared vocabulary\<close>

text \<open>
  Identifiers are opaque UUID strings in the source; they are only ever compared for
  equality, so they are modelled as natural numbers. Instants (\<open>new Date()\<close>) are
  milliseconds since the epoch and are passed in by the caller of each model function.
  Every \<open>throw\<close> of the source is a value of \<open>error\<close>, named after the exception class
  and carrying its message.
\<close>

type_synonym uuid = nat
type_synonym instant = nat

datatype error =
    Error string
  | NotFoundError string
  | BadRequestError string
  | ForbiddenError string
  | QueryFailedError string

text \<open>
  JSON blobs (\<open>jsonb\<close> columns, metadata) are string-keyed dictionaries whose values
  may be objects themselves (\<open>JObject\<close>, the entries in order). The spread
  \<open>{...a, ...b}\<close> is \<open>a ++ b\<close>: a key of \<open>b\<close> wins with its whole value, nested
  objects are not merged.
\<close>

datatype jsonValue =
    JString string
  | JNumber rat
  | JBool bool
  | JIsoString instant
  | JObject "(string \<times> jsonValue) list"

type_synonym blob = "string \<rightharpoonup> jsonValue"

section \<open>entity/AICredits.ts\<close>

text \<open>
  \<open>credits\<close> and \<open>usedCredits\<close> are \<open>int\<close> columns; the amount handed to the helper
  methods is taken to be an integer as well. A method that mutates \<open>this\<close> returns the
  object after the call next to its result.
\<close>

datatype resetFrequency = Daily | Weekly | Monthly | Yearly | Never

record aICredits =
  ac_id :: uuid
  credits :: int
  usedCredits :: int
  lastResetAt :: "instant option"
  nextResetAt :: "instant option"
  resetFrequency :: "resetFrequency option"
  ac_userId :: uuid

definition hasEnoughCredits :: "aICredits \<Rightarrow> int \<Rightarrow> bool" where
  "hasEnoughCredits this required \<longleftrightarrow> credits this - usedCredits this \<ge> required"

definition useCredits :: "aICredits \<Rightarrow> int \<Rightarrow> bool \<times> aICredits" where
  "useCredits this amt =
     (if \<not> hasEnoughCredits this amt then (False, this)
      else (True, this\<lparr>usedCredits := usedCredits this + amt\<rparr>))"

definition addCredits :: "aICredits \<Rightarrow> int \<Rightarrow> aICredits" where
  "addCredits this amt = this\<lparr>credits := credits this + amt\<rparr>"

section \<open>entity/Payment.ts\<close>

text \<open>
  A JavaScript number is a finite value, an infinity or \<open>NaN\<close>; \<open><=\<close> and \<open>>\<close> are false
  as soon as one side is \<open>NaN\<close>. \<open>amount\<close> is a \<open>decimal(10,2)\<close> column typed \<open>number\<close>
  with no transformer: a payment built in memory holds a number there
  (\<open>DecimalNumber\<close>), a payment loaded through the postgres driver holds the column's
  string rendering (\<open>DecimalString r\<close> for the decimal \<open>r\<close>, as in \<open>'50.00'\<close>). A
  relational operator converts the string to its number; \<open>===\<close> converts nothing and
  is false between a number and a string, and between \<open>NaN\<close> and anything.

  The metadata blob is a string-keyed dictionary; the only values the methods below
  write themselves are the refund reason (a string) and the ISO rendering of the
  refund instant (\<open>JIsoString\<close>). The optional \<open>metadata\<close> field is \<open>None\<close> when
  undefined; spreading \<open>undefined\<close> contributes no keys.
\<close>

datatype jsNumber = Num rat | PosInfinity | NegInfinity | NaN

fun jsLe :: "jsNumber \<Rightarrow> jsNumber \<Rightarrow> bool" where
  "jsLe NaN b = False"
| "jsLe a NaN = False"
| "jsLe NegInfinity b = True"
| "jsLe a PosInfinity = True"
| "jsLe (Num a) (Num b) = (a \<le> b)"
| "jsLe a b = False"

definition jsGt :: "jsNumber \<Rightarrow> jsNumber \<Rightarrow> bool" where
  "jsGt a b \<longleftrightarrow> a \<noteq> NaN \<and> b \<noteq> NaN \<and> \<not> jsLe a b"

datatype decimalColumn = DecimalNumber jsNumber | DecimalString rat

definition toNumber :: "decimalColumn \<Rightarrow> jsNumber" where
  "toNumber c = (case c of DecimalNumber n \<Rightarrow> n | DecimalString r \<Rightarrow> Num r)"

definition strictEquals :: "jsNumber \<Rightarrow> decimalColumn \<Rightarrow> bool" where
  "strictEquals a c \<longleftrightarrow>
     (case c of DecimalNumber n \<Rightarrow> a \<noteq> NaN \<and> a = n | DecimalString r \<Rightarrow> False)"

datatype paymentStatus = Pending | Completed | Failed | Refunded | Cancelled

datatype paymentMethod = Credit_card | Paypal | Stripe | Bank_transfer | Other

type_synonym paymentMetadata = blob

record payment =
  pay_id :: uuid
  amount :: decimalColumn
  currency :: string
  status :: paymentStatus
  paymentMethod :: paymentMethod
  paymentType :: string
  pay_description :: "string option"
  metadata :: "paymentMetadata option"
  paidAt :: "instant option"
  refundedAt :: "instant option"
  refundAmount :: "jsNumber option"
  pay_userId :: uuid

definition spread :: "paymentMetadata option \<Rightarrow> paymentMetadata" where
  "spread m = (case m of None \<Rightarrow> Map.empty | Some d \<Rightarrow> d)"

text \<open>\<open>markAsPaid(metadata = {})\<close>; \<open>now\<close> is the value of \<open>new Date()\<close>.\<close>

definition markAsPaid :: "payment \<Rightarrow> paymentMetadata \<Rightarrow> instant \<Rightarrow> payment" where
  "markAsPaid this md now =
     this\<lparr>status := Completed,
          paidAt := Some now,
          metadata := Some (spread (metadata this) ++ md)\<rparr>"

text \<open>
  \<open>processRefund(amount, reason?, metadata = {})\<close>. The first component of the result
  is the thrown error, if any; the second is the payment object after the call. The
  test \<open>if (reason)\<close> is false for an absent and for an empty reason.
\<close>

definition truthy :: "string option \<Rightarrow> bool" where
  "truthy r \<longleftrightarrow> (case r of None \<Rightarrow> False | Some s \<Rightarrow> s \<noteq> [])"

definition processRefund ::
  "payment \<Rightarrow> jsNumber \<Rightarrow> string option \<Rightarrow> paymentMetadata \<Rightarrow> instant
     \<Rightarrow> error option \<times> payment" where
  "processRefund this amt reason md now =
     (if status this \<noteq> Completed then
        (Some (Error ''Only completed payments can be refunded''), this)
      else if jsLe amt (Num 0) \<or> jsGt amt (toNumber (amount this)) then
        (Some (Error ''Invalid refund amount''), this)
      else
        let this1 = this\<lparr>status := (if strictEquals amt (amount this)
                                       then Refunded else Completed)\<rparr>;
            this2 = this1\<lparr>refundedAt := Some now\<rparr>;
            this3 = this2\<lparr>refundAmount := Some amt\<rparr>
        in if truthy reason then
             (None, this3\<lparr>metadata :=
                Some ((spread (metadata this3) ++ md)
                        (''refundReason'' \<mapsto> JString (the reason),
                         ''refundedAt'' \<mapsto> JIsoString now))\<rparr>)
           else (None, this3))"

section \<open>Strings\<close>

text \<open>
  A JavaScript string is a sequence of code units; the model covers the strings whose
  code units are below 256, one \<open>char\<close> each. \<open>substring\<close> clamps both indices to the
  length and swaps them when they are out of order.
\<close>

definition substring :: "string \<Rightarrow> nat \<Rightarrow> nat \<Rightarrow> string" where
  "substring s a b =
     (let a' = min a (length s); b' = min b (length s)
      in take (max a' b' - min a' b') (drop (min a' b') s))"

fun showNat :: "nat \<Rightarrow> string" where
  "showNat n = (if n < 10 then [char_of (48 + n)]
                else showNat (n div 10) @ [char_of (48 + n mod 10)])"

declare showNat.simps [simp del]

text \<open>\<open>\s\<close>: tab, line feed, vertical tab, form feed, carriage return, space, U+00A0.\<close>

definition isSpace :: "char \<Rightarrow> bool" where
  "isSpace c \<longleftrightarrow> (of_char c :: nat) \<in> {9, 10, 11, 12, 13, 32, 160}"

text \<open>\<open>\w\<close> is \<open>[A-Za-z0-9_]\<close>.\<close>

definition isWord :: "char \<Rightarrow> bool" where
  "isWord c \<longleftrightarrow>
     (let n = (of_char c :: nat)
      in (48 \<le> n \<and> n \<le> 57) \<or> (65 \<le> n \<and> n \<le> 90) \<or> n = 95 \<or> (97 \<le> n \<and> n \<le> 122))"

text \<open>
  \<open>toLowerCase\<close> on code units below 256: A-Z and the Latin-1 capitals U+00C0..U+00DE
  (without the multiplication sign U+00D7) move up by 32; nothing else changes.
\<close>

definition toLowerCaseChar :: "char \<Rightarrow> char" where
  "toLowerCaseChar c =
     (let n = (of_char c :: nat)
      in if (65 \<le> n \<and> n \<le> 90) \<or> (192 \<le> n \<and> n \<le> 222 \<and> n \<noteq> 215)
         then char_of (n + 32) else c)"

definition toLowerCase :: "string \<Rightarrow> string" where
  "toLowerCase s = map toLowerCaseChar s"

section \<open>generateSlug (page.controller.ts, site.controller.ts)\<close>

text \<open>
  The two controllers carry the same private method. Each \<open>replace\<close> of the chain is
  one function here:
  \<^item> \<open>replace(/\s+/g, '-')\<close>: every maximal run of white space becomes one CHR ''-'';
  \<^item> \<open>replace(/[^\w\-]+/g, '')\<close>: every character that is neither a word character
    nor a CHR ''-'' is deleted;
  \<^item> \<open>replace(/\-\-+/g, '-')\<close>: every maximal run of two or more CHR ''-''s becomes one;
  \<^item> \<open>replace(/^-+/, '')\<close> and \<open>replace(/-+$/, '')\<close>: the leading and the trailing
    run of CHR ''-''s are deleted.
\<close>

function replaceSpaceRuns :: "string \<Rightarrow> string" where
  "replaceSpaceRuns [] = []"
| "replaceSpaceRuns (c # cs) =
     (if isSpace c then CHR ''-'' # replaceSpaceRuns (dropWhile isSpace cs)
      else c # replaceSpaceRuns cs)"
  by pat_completeness auto
termination
  by (relation "measure length") (auto simp: less_Suc_eq_le length_dropWhile_le)

definition stripNonWord :: "string \<Rightarrow> string" where
  "stripNonWord s = filter (\<lambda>c. isWord c \<or> c = CHR ''-'') s"

function replaceHyphenRuns :: "string \<Rightarrow> string" where
  "replaceHyphenRuns [] = []"
| "replaceHyphenRuns [c] = [c]"
| "replaceHyphenRuns (c # d # cs) =
     (if c = CHR ''-'' \<and> d = CHR ''-''
      then CHR ''-'' # replaceHyphenRuns (dropWhile (\<lambda>x. x = CHR ''-'') cs)
      else c # replaceHyphenRuns (d # cs))"
  by pat_completeness auto
termination
  by (relation "measure length")
     (auto simp: less_Suc_eq_le intro: le_trans [OF length_dropWhile_le])

definition stripLeadingHyphens :: "string \<Rightarrow> string" where
  "stripLeadingHyphens s = dropWhile (\<lambda>x. x = CHR ''-'') s"

definition stripTrailingHyphens :: "string \<Rightarrow> string" where
  "stripTrailingHyphens s = rev (dropWhile (\<lambda>x. x = CHR ''-'') (rev s))"

definition generateSlug :: "string \<Rightarrow> string" where
  "generateSlug text =
     stripTrailingHyphens (stripLeadingHyphens (replaceHyphenRuns
       (stripNonWord (replaceSpaceRuns (toLowerCase text)))))"

text \<open>
  The \<open>slug\<close> column of \<open>Site\<close> and of \<open>Page\<close> is declared with
  \<open>@IsNotEmpty\<close> and \<open>@Matches(/^[a-z0-9-]+$/)\<close>: "Slug can only contain lowercase
  letters, numbers, and hyphens".
\<close>

definition isSlugChar :: "char \<Rightarrow> bool" where
  "isSlugChar c \<longleftrightarrow>
     (let n = (of_char c :: nat)
      in (97 \<le> n \<and> n \<le> 122) \<or> (48 \<le> n \<and> n \<le> 57) \<or> c = CHR ''-'')"

definition matchesSlugPattern :: "string \<Rightarrow> bool" where
  "matchesSlugPattern s \<longleftrightarrow> s \<noteq> [] \<and> list_all isSlugChar s"


definition pageSuffix :: "string \<Rightarrow> string" where
  "pageSuffix rnd = substring rnd 2 6"

definition siteSuffix :: "string \<Rightarrow> string" where
  "siteSuffix rnd = substring rnd 2 8"

section \<open>Entities and the persistence layer\<close>

text \<open>
  The rows of the three tables the controllers work on. Field names carry the
  entity's initial where two entities share a name. \<open>deletedAt\<close> is the delete-date
  column the \<open>find\<close> methods filter on; none of the three entities declares one, so
  no request ever stamps it (\<open>softRemove\<close> raises instead) and the filter passes every
  row the requests themselves have written. Generated primary keys come from the
  counter \<open>nextId\<close>. The \<open>slug\<close> column of \<open>Site\<close> and of \<open>Page\<close> is declared
  \<open>unique: true\<close>, over the whole table.
\<close>

datatype publishStatus = Draft | Published | Archived

datatype pageType = Page | Home | About | Contact | Blog | Custom

datatype siteTemplate = Business | Portfolio | Ecommerce | BlogTemplate | Landing | CustomTemplate

datatype sectionType =
  Hero | Features | Testimonials | Cta | Pricing | Team | ContactSection | Content | Gallery
  | CustomSection

record plan =
  maxSites :: "nat option"
  maxPagesPerSite :: "nat option"
  maxSectionsPerPage :: "nat option"

record user =
  u_id :: uuid
  u_plan :: "plan option"

record site =
  s_id :: uuid
  s_name :: string
  s_slug :: string
  s_description :: "string option"
  s_status :: publishStatus
  s_seo :: blob
  s_primaryColor :: "string option"
  s_secondaryColor :: "string option"
  s_fontFamily :: "string option"
  s_customCode :: blob
  s_template :: siteTemplate
  s_ownerId :: uuid
  s_deletedAt :: "instant option"

record page =
  p_id :: uuid
  p_title :: string
  p_slug :: string
  p_description :: "string option"
  p_content :: "string option"
  p_status :: publishStatus
  p_pageType :: pageType
  isHomepage :: bool
  p_order :: int
  p_seo :: blob
  p_settings :: blob
  p_siteId :: uuid
  p_deletedAt :: "instant option"

record pageSection =
  sec_id :: uuid
  sec_title :: string
  sec_type :: sectionType
  sec_content :: blob
  sec_settings :: blob
  sec_order :: int
  isActive :: bool
  sec_pageId :: uuid
  sec_deletedAt :: "instant option"

record db =
  sites :: "site list"
  pages :: "page list"
  sections :: "pageSection list"
  nextId :: uuid

text \<open>
  The repository calls the controllers make, over one table (a list of rows in storage
  order); \<open>del\<close> is the table's \<open>deletedAt\<close> column.
  \<^item> \<open>findOne({where})\<close>: the first row, not soft-deleted, that satisfies the condition;
  \<^item> \<open>find({where})\<close>: all such rows; \<open>count(where)\<close>: their number;
  \<^item> \<open>update(criteria, partial)\<close>: a plain \<open>UPDATE\<close> of every row that satisfies the
    criteria;
  \<^item> \<open>save(entity)\<close> of a loaded entity: the row with the entity's id becomes the
    entity (none of the controllers saves a loaded entity with another slug);
  \<^item> \<open>save(entity)\<close> of a new entity: an \<open>INSERT\<close>, which the database refuses with a
    \<open>QueryFailedError\<close> when a row of the table already has the slug;
  \<^item> \<open>softRemove(entity)\<close>: raises \<open>MissingDeleteDateColumnError\<close>, the entity having
    no delete-date column to stamp, and writes nothing.
\<close>

definition findOne :: "('r \<Rightarrow> instant option) \<Rightarrow> ('r \<Rightarrow> bool) \<Rightarrow> 'r list \<Rightarrow> 'r option" where
  "findOne del wh rows = List.find (\<lambda>r. del r = None \<and> wh r) rows"

definition findMany :: "('r \<Rightarrow> instant option) \<Rightarrow> ('r \<Rightarrow> bool) \<Rightarrow> 'r list \<Rightarrow> 'r list" where
  "findMany del wh rows = filter (\<lambda>r. del r = None \<and> wh r) rows"

definition count :: "('r \<Rightarrow> instant option) \<Rightarrow> ('r \<Rightarrow> bool) \<Rightarrow> 'r list \<Rightarrow> nat" where
  "count del wh rows = length (filter (\<lambda>r. del r = None \<and> wh r) rows)"

definition update :: "('r \<Rightarrow> bool) \<Rightarrow> ('r \<Rightarrow> 'r) \<Rightarrow> 'r list \<Rightarrow> 'r list" where
  "update criteria partial rows = map (\<lambda>r. if criteria r then partial r else r) rows"

definition save :: "('r \<Rightarrow> uuid) \<Rightarrow> 'r \<Rightarrow> 'r list \<Rightarrow> 'r list" where
  "save ident entity rows = map (\<lambda>r. if ident r = ident entity then entity else r) rows"

definition duplicateKey :: error where
  "duplicateKey = QueryFailedError ''duplicate key value violates unique constraint''"


definition insertPage :: "page \<Rightarrow> db \<Rightarrow> (error + page) \<times> db" where
  "insertPage entity s =
     (if list_ex (\<lambda>r. p_slug r = p_slug entity) (pages s) then (Inl duplicateKey, s)
      else
        let e = entity\<lparr>p_id := nextId s\<rparr>
        in (Inr e, s\<lparr>pages := pages s @ [e], nextId := Suc (nextId s)\<rparr>))"

definition softRemovePage :: "page \<Rightarrow> instant \<Rightarrow> db \<Rightarrow> (error + unit) \<times> db" where
  "softRemovePage entity now s = (Inl (Error ''MissingDeleteDateColumnError''), s)"

definition softRemoveSection :: "pageSection \<Rightarrow> instant \<Rightarrow> db \<Rightarrow> (error + unit) \<times> db" where
  "softRemoveSection entity now s = (Inl (Error ''MissingDeleteDateColumnError''), s)"

text \<open>
  A \<open>where\<close> or criteria entry keyed by a relation (\<open>site\<close> of a page, \<open>page\<close> of a
  section) is handed either the related entity, as in \<open>count({ site })\<close>, or a bare
  id, as in \<open>{ site: site.id }\<close>. \<open>Page\<close> and \<open>PageSection\<close> declare the join column as a
  column of their own (\<open>siteId\<close>, \<open>pageId\<close>) beside the relation, and the key of a
  relation entry is read out of the given value as out of an entity: a bare id holds
  none, the query parameter is NULL, and \<open>site_id = NULL\<close> is true of no row.
\<close>

datatype 'e relationValue = GivenEntity 'e | GivenId uuid

definition relationKey :: "('e \<Rightarrow> uuid) \<Rightarrow> 'e relationValue \<Rightarrow> uuid option" where
  "relationKey ident v = (case v of GivenEntity e \<Rightarrow> Some (ident e) | GivenId i \<Rightarrow> None)"

definition joinColumnIs :: "uuid \<Rightarrow> uuid option \<Rightarrow> bool" where
  "joinColumnIs col key \<longleftrightarrow> (case key of None \<Rightarrow> False | Some k \<Rightarrow> col = k)"

definition siteIs :: "page \<Rightarrow> site relationValue \<Rightarrow> bool" where
  "siteIs p v \<longleftrightarrow> joinColumnIs (p_siteId p) (relationKey s_id v)"

definition pageIs :: "pageSection \<Rightarrow> page relationValue \<Rightarrow> bool" where
  "pageIs r v \<longleftrightarrow> joinColumnIs (sec_pageId r) (relationKey p_id v)"

text \<open>\<open>user.plan?.field || dflt\<close>: the default stands in for a missing plan or field and for 0.\<close>

definition planLimit :: "user \<Rightarrow> (plan \<Rightarrow> nat option) \<Rightarrow> nat \<Rightarrow> nat" where
  "planLimit usr field dflt =
     (case u_plan usr of
        None \<Rightarrow> dflt
      | Some pl \<Rightarrow> (case field pl of None \<Rightarrow> dflt | Some n \<Rightarrow> if n = 0 then dflt else n))"

text \<open>The ownership check \<open>siteRepository.findOne({ where: { id, owner: user } })\<close>.\<close>

definition findOwnedSite :: "db \<Rightarrow> uuid \<Rightarrow> user \<Rightarrow> site option" where
  "findOwnedSite s sid usr =
     findOne s_deletedAt (\<lambda>st. s_id st = sid \<and> s_ownerId st = u_id usr) (sites s)"

section \<open>controllers/page.controller.ts\<close>

text \<open>
  A controller method takes the database and returns its outcome (\<open>Inl\<close> the thrown
  error, \<open>Inr\<close> the payload) together with the database as the request leaves it. No
  transaction wraps a request, so what was written before a \<open>throw\<close> would stay written;
  the state returned next to an error is the state at the point of the \<open>throw\<close>.
  The request DTOs carry \<open>None\<close> for an absent optional field.
\<close>

record createPageDto =
  cp_title :: string
  cp_description :: "string option"
  cp_content :: "string option"
  cp_pageType :: "pageType option"
  cp_isHomepage :: "bool option"
  cp_order :: "int option"
  cp_siteId :: uuid

record updatePageDto =
  up_title :: "string option"
  up_description :: "string option"
  up_content :: "string option"
  up_status :: "publishStatus option"
  up_pageType :: "pageType option"
  up_isHomepage :: "bool option"
  up_order :: "int option"
  up_seo :: "blob option"
  up_settings :: "blob option"

record reorderPagesDto =
  pageIds :: "uuid list option"

text \<open>
  \<open>validate(createPageDto)\<close> reports the violated decorators of the DTO class: the title
  is required and at most 200 characters, description and content are bounded when
  present, a given order is at least 0.
\<close>

definition optLengthLe :: "string option \<Rightarrow> nat \<Rightarrow> bool" where
  "optLengthLe v n \<longleftrightarrow> (case v of None \<Rightarrow> True | Some t \<Rightarrow> length t \<le> n)"

definition validateCreatePageDto :: "createPageDto \<Rightarrow> bool" where
  "validateCreatePageDto dto \<longleftrightarrow>
     cp_title dto \<noteq> [] \<and> length (cp_title dto) \<le> 200 \<and>
     optLengthLe (cp_description dto) 500 \<and>
     optLengthLe (cp_content dto) 10000 \<and>
     (case cp_order dto of None \<Rightarrow> True | Some n \<Rightarrow> 0 \<le> n)"

text \<open>\<open>x || dflt\<close> on an optional string, boolean and number.\<close>

definition orString :: "string option \<Rightarrow> string \<Rightarrow> string" where
  "orString v dflt = (case v of None \<Rightarrow> dflt | Some t \<Rightarrow> if t = [] then dflt else t)"

definition orBool :: "bool option \<Rightarrow> bool \<Rightarrow> bool" where
  "orBool v dflt = (case v of None \<Rightarrow> dflt | Some b \<Rightarrow> if b then b else dflt)"

definition orInt :: "int option \<Rightarrow> int \<Rightarrow> int" where
  "orInt v dflt = (case v of None \<Rightarrow> dflt | Some n \<Rightarrow> if n = 0 then dflt else n)"

definition createPage :: "db \<Rightarrow> createPageDto \<Rightarrow> user \<Rightarrow> string \<Rightarrow> (error + page) \<times> db" where
  "createPage s dto usr rnd =
     (if \<not> validateCreatePageDto dto then (Inl (BadRequestError ''Validation failed''), s)
      else case findOwnedSite s (cp_siteId dto) usr of
        None \<Rightarrow> (Inl (NotFoundError ''Site not found or access denied''), s)
      | Some site \<Rightarrow>
          let pageCount = count p_deletedAt (\<lambda>p. siteIs p (GivenEntity site)) (pages s);
              maxPages = planLimit usr maxPagesPerSite 50
          in if pageCount \<ge> maxPages then
               (Inl (ForbiddenError (''You have reached the maximum number of pages (''
                  @ showNat maxPages @ '') for this site'')), s)
             else
               let page0 = \<lparr>p_id = 0,
                     p_title = cp_title dto,
                     p_slug = generateSlug (cp_title dto),
                     p_description = Some (orString (cp_description dto) []),
                     p_content = Some (orString (cp_content dto) []),
                     p_status = Draft,
                     p_pageType = (case cp_pageType dto of None \<Rightarrow> Page | Some t \<Rightarrow> t),
                     isHomepage = orBool (cp_isHomepage dto) False,
                     p_order = orInt (cp_order dto) 0,
                     p_seo = Map.empty,
                     p_settings = Map.empty,
                     p_siteId = s_id site,
                     p_deletedAt = None\<rparr>;
                   slugExists = findOne p_deletedAt
                     (\<lambda>p. p_slug p = p_slug page0 \<and> siteIs p (GivenId (s_id site))) (pages s);
                   page1 = (if slugExists \<noteq> None
                            then page0\<lparr>p_slug := p_slug page0 @ ''-'' @ pageSuffix rnd\<rparr>
                            else page0);
                   s1 = (if isHomepage page1
                         then s\<lparr>pages := update
                                 (\<lambda>p. siteIs p (GivenId (s_id site)) \<and> isHomepage p)
                                 (\<lambda>p. p\<lparr>isHomepage := False\<rparr>) (pages s)\<rparr>
                         else s)
               in insertPage page1 s1)"

text \<open>
  \<open>updatePage\<close>. The title branch is written as in the source: the title is assigned
  first and the comparison that guards the slug regeneration reads the page after
  the assignment.
\<close>

definition updatePageTitle :: "db \<Rightarrow> uuid \<Rightarrow> site \<Rightarrow> string \<Rightarrow> string \<Rightarrow> page \<Rightarrow> page" where
  "updatePageTitle s ident site rnd title pg =
     (let page1 = pg\<lparr>p_title := title\<rparr>
      in if title \<noteq> p_title page1 then
           let page2 = page1\<lparr>p_slug := generateSlug title\<rparr>;
               slugExists = findOne p_deletedAt
                 (\<lambda>p. p_slug p = p_slug page2 \<and> siteIs p (GivenId (s_id site)) \<and>
                      p_id p \<noteq> ident)
                 (pages s)
           in if slugExists \<noteq> None
              then page2\<lparr>p_slug := p_slug page2 @ ''-'' @ pageSuffix rnd\<rparr>
              else page2
         else page1)"

text \<open>
  \<open>if (dto.field !== undefined) { ... }\<close> (and \<open>if (dto.field)\<close> on an enum or object
  field, which is truthy whenever it is present): the assignment is applied to the
  entity when the field is present.
\<close>

definition whenDefined :: "'a option \<Rightarrow> ('a \<Rightarrow> 'r \<Rightarrow> 'r) \<Rightarrow> 'r \<Rightarrow> 'r" where
  "whenDefined v assign entity = (case v of None \<Rightarrow> entity | Some x \<Rightarrow> assign x entity)"

definition updatePage ::
  "db \<Rightarrow> uuid \<Rightarrow> updatePageDto \<Rightarrow> user \<Rightarrow> string \<Rightarrow> (error + page) \<times> db" where
  "updatePage s ident dto usr rnd =
     (case findOne p_deletedAt (\<lambda>p. p_id p = ident) (pages s) of
        None \<Rightarrow> (Inl (NotFoundError ''Page not found''), s)
      | Some pg \<Rightarrow>
         (case findOwnedSite s (p_siteId pg) usr of
            None \<Rightarrow> (Inl (ForbiddenError ''You do not have permission to update this page''), s)
          | Some site \<Rightarrow>
              let page1 = whenDefined (up_title dto) (updatePageTitle s ident site rnd) pg;
                  page2 = whenDefined (up_description dto)
                            (\<lambda>d p. p\<lparr>p_description := Some d\<rparr>) page1;
                  page3 = whenDefined (up_content dto) (\<lambda>c p. p\<lparr>p_content := Some c\<rparr>) page2;
                  page4 = whenDefined (up_status dto) (\<lambda>st p. p\<lparr>p_status := st\<rparr>) page3;
                  page5 = whenDefined (up_pageType dto) (\<lambda>t p. p\<lparr>p_pageType := t\<rparr>) page4;
                  (s1, page6) = (case up_isHomepage dto of None \<Rightarrow> (s, page5)
                     | Some h \<Rightarrow>
                        ((if h then
                            s\<lparr>pages := update
                                (\<lambda>p. siteIs p (GivenId (s_id site)) \<and> isHomepage p \<and>
                                     p_id p \<noteq> ident)
                                (\<lambda>p. p\<lparr>isHomepage := False\<rparr>) (pages s)\<rparr>
                          else s),
                         page5\<lparr>isHomepage := h\<rparr>));
                  page7 = whenDefined (up_order dto) (\<lambda>n p. p\<lparr>p_order := n\<rparr>) page6;
                  page8 = whenDefined (up_seo dto) (\<lambda>b p. p\<lparr>p_seo := p_seo p ++ b\<rparr>) page7;
                  page9 = whenDefined (up_settings dto)
                            (\<lambda>b p. p\<lparr>p_settings := p_settings p ++ b\<rparr>) page8
              in (Inr page9, s1\<lparr>pages := save p_id page9 (pages s1)\<rparr>)))"

text \<open>
  \<open>reorderPages\<close>. \<open>find({ where: { id: In(pageIds) } })\<close> returns each matching row
  once. The \<open>for\<close> loop throws at the first page whose site the user does not own. The
  updates of \<open>Promise.all\<close> are issued in list order, one \<open>UPDATE\<close> by primary key each.
\<close>

fun checkPageAccess :: "db \<Rightarrow> user \<Rightarrow> page list \<Rightarrow> error option" where
  "checkPageAccess s usr [] = None"
| "checkPageAccess s usr (p # rest) =
     (case findOwnedSite s (p_siteId p) usr of
        None \<Rightarrow> Some (ForbiddenError (''You do not have permission to reorder page ''
                  @ showNat (p_id p)))
      | Some site \<Rightarrow> checkPageAccess s usr rest)"

definition reorderPages :: "db \<Rightarrow> reorderPagesDto \<Rightarrow> user \<Rightarrow> (error + unit) \<times> db" where
  "reorderPages s dto usr =
     (case pageIds dto of
        None \<Rightarrow> (Inl (BadRequestError ''No page IDs provided''), s)
      | Some ids \<Rightarrow>
          if ids = [] then (Inl (BadRequestError ''No page IDs provided''), s)
          else
            let found = findMany p_deletedAt (\<lambda>p. p_id p \<in> set ids) (pages s)
            in if length found \<noteq> length ids then
                 (Inl (BadRequestError ''One or more pages not found''), s)
               else
                 (case checkPageAccess s usr found of
                    Some e \<Rightarrow> (Inl e, s)
                  | None \<Rightarrow>
                      (Inr (), s\<lparr>pages :=
                         foldl (\<lambda>rows (index, pageId).
                                  update (\<lambda>p. p_id p = pageId) (\<lambda>p. p\<lparr>p_order := int index\<rparr>) rows)
                               (pages s) (enumerate 0 ids)\<rparr>)))"

text \<open>\<open>deletePage\<close>; \<open>now\<close> is the instant of the request.\<close>

definition deletePage :: "db \<Rightarrow> uuid \<Rightarrow> user \<Rightarrow> instant \<Rightarrow> (error + unit) \<times> db" where
  "deletePage s ident usr now =
     (case findOne p_deletedAt (\<lambda>p. p_id p = ident) (pages s) of
        None \<Rightarrow> (Inl (NotFoundError ''Page not found''), s)
      | Some pg \<Rightarrow>
         (case findOwnedSite s (p_siteId pg) usr of
            None \<Rightarrow> (Inl (ForbiddenError ''You do not have permission to delete this page''), s)
          | Some site \<Rightarrow>
              let pageCount = count p_deletedAt (\<lambda>p. siteIs p (GivenId (s_id site))) (pages s)
              in if pageCount \<le> 1 then
                   (Inl (BadRequestError ''Cannot delete the last page of a site''), s)
                 else
                   let s1 = (if isHomepage pg then
                               (case findOne p_deletedAt
                                       (\<lambda>p. siteIs p (GivenId (s_id site)) \<and> p_id p \<noteq> ident)
                                       (pages s) of
                                  None \<Rightarrow> s
                                | Some anotherPage \<Rightarrow>
                                    s\<lparr>pages := save p_id (anotherPage\<lparr>isHomepage := True\<rparr>)
                                                (pages s)\<rparr>)
                             else s)
                   in softRemovePage pg now s1))"

section \<open>The section controller\<close>

text \<open>
  \<open>section.page.site.id\<close> follows the loaded relations: the page row the section points
  to, then that page's site. A section whose page row is missing has no \<open>page\<close> to
  dereference, and the property access raises a \<open>TypeError\<close>.
\<close>

record reorderSectionsDto =
  sectionIds :: "uuid list option"

definition sectionSiteId :: "db \<Rightarrow> pageSection \<Rightarrow> uuid option" where
  "sectionSiteId s sec = map_option p_siteId (List.find (\<lambda>p. p_id p = sec_pageId sec) (pages s))"

fun checkSectionAccess :: "db \<Rightarrow> user \<Rightarrow> pageSection list \<Rightarrow> error option" where
  "checkSectionAccess s usr [] = None"
| "checkSectionAccess s usr (sec # rest) =
     (case sectionSiteId s sec of
        None \<Rightarrow> Some (Error ''TypeError'')
      | Some sid \<Rightarrow>
         (case findOwnedSite s sid usr of
            None \<Rightarrow> Some (ForbiddenError (''You do not have permission to reorder section ''
                      @ showNat (sec_id sec)))
          | Some site \<Rightarrow> checkSectionAccess s usr rest))"

definition reorderSections :: "db \<Rightarrow> reorderSectionsDto \<Rightarrow> user \<Rightarrow> (error + unit) \<times> db" where
  "reorderSections s dto usr =
     (case sectionIds dto of
        None \<Rightarrow> (Inl (BadRequestError ''No section IDs provided''), s)
      | Some ids \<Rightarrow>
          if ids = [] then (Inl (BadRequestError ''No section IDs provided''), s)
          else
            let found = findMany sec_deletedAt (\<lambda>r. sec_id r \<in> set ids) (sections s)
            in if length found \<noteq> length ids then
                 (Inl (BadRequestError ''One or more sections not found''), s)
               else
                 (case checkSectionAccess s usr found of
                    Some e \<Rightarrow> (Inl e, s)
                  | None \<Rightarrow>
                      (Inr (), s\<lparr>sections :=
                         foldl (\<lambda>rows (index, sectionId).
                                  update (\<lambda>r. sec_id r = sectionId)
                                    (\<lambda>r. r\<lparr>sec_order := int index\<rparr>) rows)
                               (sections s) (enumerate 0 ids)\<rparr>)))"

definition deleteSection :: "db \<Rightarrow> uuid \<Rightarrow> user \<Rightarrow> instant \<Rightarrow> (error + unit) \<times> db" where
  "deleteSection s ident usr now =
     (case findOne sec_deletedAt (\<lambda>r. sec_id r = ident) (sections s) of
        None \<Rightarrow> (Inl (NotFoundError ''Section not found''), s)
      | Some sec \<Rightarrow>
         (case sectionSiteId s sec of
            None \<Rightarrow> (Inl (Error ''TypeError''), s)
          | Some sid \<Rightarrow>
             (case findOwnedSite s sid usr of
                None \<Rightarrow>
                  (Inl (ForbiddenError ''You do not have permission to delete this section''), s)
              | Some site \<Rightarrow>
                  let sectionCount =
                        count sec_deletedAt (\<lambda>r. pageIs r (GivenId (sec_pageId sec)))
                          (sections s)
                  in if sectionCount \<le> 1 then
                       (Inl (BadRequestError ''Cannot delete the last section of a page''), s)
                     else softRemoveSection sec now s)))"

section \<open>controllers/site.controller.ts\<close>


record updateSiteDto =
  us_name :: "string option"
  us_description :: "string option"
  us_status :: "publishStatus option"
  us_template :: "siteTemplate option"
  us_primaryColor :: "string option"
  us_secondaryColor :: "string option"
  us_fontFamily :: "string option"
  us_seo :: "blob option"
  us_customCode :: "blob option"





text \<open>\<open>updateSite\<close>; the name branch has the shape of the title branch of \<open>updatePage\<close>.\<close>

definition updateSiteName :: "db \<Rightarrow> uuid \<Rightarrow> string \<Rightarrow> string \<Rightarrow> site \<Rightarrow> site" where
  "updateSiteName s ident rnd name st =
     (let site1 = st\<lparr>s_name := name\<rparr>
      in if name \<noteq> s_name site1 then
           let site2 = site1\<lparr>s_slug := generateSlug name\<rparr>;
               slugExists = findOne s_deletedAt
                 (\<lambda>r. s_slug r = s_slug site2 \<and> s_id r \<noteq> ident) (sites s)
           in if slugExists \<noteq> None
              then site2\<lparr>s_slug := s_slug site2 @ ''-'' @ siteSuffix rnd\<rparr>
              else site2
         else site1)"

definition setIfTruthy :: "string option \<Rightarrow> string option \<Rightarrow> string option" where
  "setIfTruthy v old = (case v of None \<Rightarrow> old | Some t \<Rightarrow> if t = [] then old else Some t)"

definition updateSite ::
  "db \<Rightarrow> uuid \<Rightarrow> updateSiteDto \<Rightarrow> user \<Rightarrow> string \<Rightarrow> (error + site) \<times> db" where
  "updateSite s ident dto usr rnd =
     (case findOwnedSite s ident usr of
        None \<Rightarrow> (Inl (NotFoundError ''Site not found''), s)
      | Some st \<Rightarrow>
          let site1 = whenDefined (us_name dto) (updateSiteName s ident rnd) st;
              site2 = whenDefined (us_description dto)
                        (\<lambda>d r. r\<lparr>s_description := Some d\<rparr>) site1;
              site3 = whenDefined (us_status dto) (\<lambda>v r. r\<lparr>s_status := v\<rparr>) site2;
              site4 = whenDefined (us_template dto) (\<lambda>t r. r\<lparr>s_template := t\<rparr>) site3;
              site5 = site4\<lparr>s_primaryColor :=
                               setIfTruthy (us_primaryColor dto) (s_primaryColor site4)\<rparr>;
              site6 = site5\<lparr>s_secondaryColor :=
                               setIfTruthy (us_secondaryColor dto) (s_secondaryColor site5)\<rparr>;
              site7 = site6\<lparr>s_fontFamily :=
                               setIfTruthy (us_fontFamily dto) (s_fontFamily site6)\<rparr>;
              site8 = whenDefined (us_seo dto) (\<lambda>b r. r\<lparr>s_seo := s_seo r ++ b\<rparr>) site7;
              site9 = whenDefined (us_customCode dto)
                        (\<lambda>b r. r\<lparr>s_customCode := s_customCode r ++ b\<rparr>) site8
          in (Inr site9, s\<lparr>sites := save s_id site9 (sites s)\<rparr>))"

section \<open>What a reorder request must satisfy\<close>

text \<open>
  The conditions under which \<open>reorderPages\<close> and \<open>reorderSections\<close> go through, read
  off their checks: the list is not empty, names no id twice, and every id in it is
  the id of a live row whose site the user owns. \<open>indexOf\<close> is the position of an
  element in a list.
\<close>

fun indexOf :: "'a list \<Rightarrow> 'a \<Rightarrow> nat" where
  "indexOf [] x = 0"
| "indexOf (y # ys) x = (if x = y then 0 else Suc (indexOf ys x))"

definition pageListOk :: "db \<Rightarrow> user \<Rightarrow> uuid list \<Rightarrow> bool" where
  "pageListOk s usr ids \<longleftrightarrow>
     ids \<noteq> [] \<and> distinct ids \<and>
     list_all (\<lambda>i. list_ex (\<lambda>p. p_id p = i \<and> p_deletedAt p = None \<and>
                                 findOwnedSite s (p_siteId p) usr \<noteq> None) (pages s)) ids"

definition sectionListOk :: "db \<Rightarrow> user \<Rightarrow> uuid list \<Rightarrow> bool" where
  "sectionListOk s usr ids \<longleftrightarrow>
     ids \<noteq> [] \<and> distinct ids \<and>
     list_all (\<lambda>i. list_ex (\<lambda>r. sec_id r = i \<and> sec_deletedAt r = None \<and>
                  (case sectionSiteId s r of None \<Rightarrow> False
                   | Some sid \<Rightarrow> findOwnedSite s sid usr \<noteq> None)) (sections s)) ids"

section \<open>Homepages and pages of a site\<close>

text \<open>The number of live homepages and of live pages of a site.\<close>

definition homepageCount :: "db \<Rightarrow> uuid \<Rightarrow> nat" where
  "homepageCount s sid = count p_deletedAt (\<lambda>p. p_siteId p = sid \<and> isHomepage p) (pages s)"


section \<open>Example values\<close>

definition ledger0 :: aICredits where
  "ledger0 = \<lparr>ac_id = 1, credits = 10, usedCredits = 4, lastResetAt = None,
     nextResetAt = None, resetFrequency = Some Monthly, ac_userId = 7\<rparr>"

definition payment0 :: payment where
  "payment0 = \<lparr>pay_id = 1, amount = DecimalNumber (Num 50), currency = ''USD'', status = Completed,
     paymentMethod = Stripe, paymentType = ''one_time'', pay_description = None,
     metadata = None, paidAt = Some 1000, refundedAt = None, refundAmount = None,
     pay_userId = 7\<rparr>"

text \<open>
  One user who owns the site "Demo" with three pages (Home is the homepage; About is
  stored before Contact but has the higher order) and three sections.
\<close>

definition user0 :: user where
  "user0 = \<lparr>u_id = 100, u_plan = None\<rparr>"

definition site0 :: site where
  "site0 = \<lparr>s_id = 1, s_name = ''Demo'', s_slug = ''demo'', s_description = Some [],
     s_status = Draft, s_seo = Map.empty, s_primaryColor = None, s_secondaryColor = None,
     s_fontFamily = None, s_customCode = Map.empty, s_template = Business, s_ownerId = 100,
     s_deletedAt = None\<rparr>"

definition mkPage :: "uuid \<Rightarrow> string \<Rightarrow> string \<Rightarrow> bool \<Rightarrow> int \<Rightarrow> page" where
  "mkPage i t sl h ord = \<lparr>p_id = i, p_title = t, p_slug = sl, p_description = None,
     p_content = None, p_status = Draft, p_pageType = Page, isHomepage = h, p_order = ord,
     p_seo = Map.empty, p_settings = Map.empty, p_siteId = 1, p_deletedAt = None\<rparr>"

definition mkSection :: "uuid \<Rightarrow> uuid \<Rightarrow> int \<Rightarrow> pageSection" where
  "mkSection i pid ord = \<lparr>sec_id = i, sec_title = ''Block'', sec_type = Content,
     sec_content = Map.empty, sec_settings = Map.empty, sec_order = ord, isActive = True,
     sec_pageId = pid, sec_deletedAt = None\<rparr>"

definition db0 :: db where
  "db0 = \<lparr>sites = [site0],
     pages = [mkPage 2 ''Home'' ''home'' True 0, mkPage 3 ''About'' ''about'' False 5,
              mkPage 4 ''Contact'' ''contact'' False 1],
     sections = [mkSection 5 2 0, mkSection 6 2 1, mkSection 7 3 0],
     nextId = 8\<rparr>"

definition titleDto :: "string \<Rightarrow> updatePageDto" where
  "titleDto t = \<lparr>up_title = Some t, up_description = None, up_content = None,
     up_status = None, up_pageType = None, up_isHomepage = None, up_order = None,
     up_seo = None, up_settings = None\<rparr>"

definition nameDto :: "string \<Rightarrow> updateSiteDto" where
  "nameDto n = \<lparr>us_name = Some n, us_description = None, us_status = None,
     us_template = None, us_primaryColor = None, us_secondaryColor = None,
     us_fontFamily = None, us_seo = None, us_customCode = None\<rparr>"


definition rnd0 :: string where
  "rnd0 = ''0.k3x9q2m7abc''"

definition dbLast :: db where
  "dbLast = \<lparr>sites = [site0], pages = [mkPage 2 ''Home'' ''home'' True 0],
     sections = [mkSection 5 2 0], nextId = 8\<rparr>"

definition pagesDto :: "uuid list \<Rightarrow> reorderPagesDto" where
  "pagesDto ids = \<lparr>pageIds = Some ids\<rparr>"

definition sectionsDto :: "uuid list \<Rightarrow> reorderSectionsDto" where
  "sectionsDto ids = \<lparr>sectionIds = Some ids\<rparr>"

definition homepageDto :: "bool \<Rightarrow> updatePageDto" where
  "homepageDto h = \<lparr>up_title = None, up_description = None, up_content = None,
     up_status = None, up_pageType = None, up_isHomepage = Some h, up_order = None,
     up_seo = None, up_settings = None\<rparr>"

definition landingDto :: createPageDto where
  "landingDto = \<lparr>cp_title = ''Landing'', cp_description = None, cp_content = None,
     cp_pageType = None, cp_isHomepage = Some True, cp_order = Some 2, cp_siteId = 1\<rparr>"

definition paymentLoaded :: payment where
  "paymentLoaded = payment0\<lparr>amount := DecimalString 50\<rparr>"

text \<open>
  A failed payment whose metadata holds an invoice id and a nested card object, and
  the metadata of a confirmation that replaces the card object and adds a receipt.
\<close>

definition paymentFailed :: payment where
  "paymentFailed = payment0\<lparr>status := Failed, paidAt := None,
     metadata := Some [''invoiceId'' \<mapsto> JString ''inv_1'',
                       ''card'' \<mapsto> JObject [(''brand'', JString ''visa''),
                                                 (''last4'', JString ''4242'')]]\<rparr>"

definition confirmation :: paymentMetadata where
  "confirmation = [''card'' \<mapsto> JObject [(''last4'', JString ''0000'')],
                   ''receiptUrl'' \<mapsto> JString ''r_1'']"


section \<open>Credit ledger: using credits\<close>

text \<open>
  Claim C2. \<open>useCredits n\<close> succeeds exactly when \<open>credits - usedCredits \<ge> n\<close>. On
  failure the ledger is returned as it was; on success \<open>usedCredits\<close> grows by exactly
  \<open>n\<close> and nothing else changes. A ledger with \<open>usedCredits \<le> credits\<close> keeps that
  bound, and after a successful call the bound holds whatever the ledger was before.
\<close>

theorem useCredits_spec:
  "(credits a - usedCredits a < n \<longrightarrow> useCredits a n = (False, a)) \<and>
   (credits a - usedCredits a \<ge> n \<longrightarrow>
      useCredits a n = (True, a\<lparr>usedCredits := usedCredits a + n\<rparr>) \<and>
      usedCredits (snd (useCredits a n)) \<le> credits (snd (useCredits a n))) \<and>
   (usedCredits a \<le> credits a \<longrightarrow>
      usedCredits (snd (useCredits a n)) \<le> credits (snd (useCredits a n)))"
  by (simp add: useCredits_def hasEnoughCredits_def)

theorem useCredits_spec_witness:
  "useCredits ledger0 7 = (False, ledger0) \<and>
   fst (useCredits ledger0 6) \<and> usedCredits (snd (useCredits ledger0 6)) = 10 \<and>
   usedCredits (snd (useCredits ledger0 6)) \<le> credits (snd (useCredits ledger0 6))"
  using useCredits_spec [of ledger0 7] useCredits_spec [of ledger0 6]
  by (simp add: ledger0_def)

section \<open>Payments\<close>

text \<open>
  On a payment whose amount is a finite number, and for a finite refund amount,
  \<open>processRefund\<close> behaves as its messages say: it throws exactly when the payment is
  not completed or the amount is not in (0, original amount], leaving the payment as
  it was; a smaller valid amount keeps the status, the full amount moves it to
  refunded.
\<close>

lemma processRefund_on_numbers:
  assumes "amount p = DecimalNumber (Num b)"
  shows "(fst (processRefund p (Num a) r md now) \<noteq> None \<longleftrightarrow>
            status p \<noteq> Completed \<or> a \<le> 0 \<or> a > b) \<and>
         (fst (processRefund p (Num a) r md now) \<noteq> None \<longrightarrow>
            snd (processRefund p (Num a) r md now) = p) \<and>
         (status p = Completed \<and> 0 < a \<and> a \<le> b \<longrightarrow>
            status (snd (processRefund p (Num a) r md now)) =
              (if a = b then Refunded else Completed) \<and>
            refundAmount (snd (processRefund p (Num a) r md now)) = Some (Num a) \<and>
            refundedAt (snd (processRefund p (Num a) r md now)) = Some now)"
  using assms
  by (auto simp: processRefund_def Let_def jsGt_def toNumber_def strictEquals_def)

text \<open>
  Claim C9. Two inputs on which the code departs from the claim. The refund amount
  \<open>NaN\<close> is outside (0, 50], yet neither guard fires: no error is raised and \<open>NaN\<close> is
  recorded as the refund amount. On a payment loaded from the database the amount is
  the string \<open>'50.00'\<close>; the full refund 50 passes the guards, but \<open>===\<close> between the
  number and the string is false and the status stays completed.
\<close>

theorem processRefund_misses:
  "fst (processRefund payment0 NaN None Map.empty 2000) = None \<and>
   refundAmount (snd (processRefund payment0 NaN None Map.empty 2000)) = Some NaN \<and>
   status (snd (processRefund payment0 NaN None Map.empty 2000)) = Completed \<and>
   amount paymentLoaded = DecimalString 50 \<and>
   fst (processRefund paymentLoaded (Num 50) None Map.empty 2000) = None \<and>
   refundAmount (snd (processRefund paymentLoaded (Num 50) None Map.empty 2000)) = Some (Num 50) \<and>
   status (snd (processRefund paymentLoaded (Num 50) None Map.empty 2000)) = Completed"
  by code_simp

text \<open>
  Claim C10. \<open>markAsPaid\<close> checks nothing: from every payment, whatever its status, the
  result has status completed and \<open>paidAt\<close> the current instant. Its metadata is
  defined and holds, under every key, the supplied value when the supplied metadata
  has the key, and otherwise what the payment's metadata held before (nothing when
  the payment had no metadata). No other field changes.
\<close>

theorem markAsPaid_spec:
  "status (markAsPaid p md now) = Completed \<and>
   paidAt (markAsPaid p md now) = Some now \<and>
   (\<exists>m. metadata (markAsPaid p md now) = Some m \<and>
        (\<forall>k. m k = (case md k of
                       Some v \<Rightarrow> Some v
                     | None \<Rightarrow> (case metadata p of None \<Rightarrow> None | Some old \<Rightarrow> old k)))) \<and>
   markAsPaid p md now =
     p\<lparr>status := Completed, paidAt := Some now, metadata := metadata (markAsPaid p md now)\<rparr>"
  by (cases "metadata p")
    (simp_all add: markAsPaid_def map_add_def spread_def split: option.splits)

text \<open>
  On the failed payment of the examples: the status becomes completed, the invoice id
  stays, the receipt is added, and the card object is the supplied one as a whole
  (the old \<open>brand\<close> entry is gone: the merge is shallow).
\<close>

theorem markAsPaid_spec_witness:
  "status paymentFailed = Failed \<and>
   status (markAsPaid paymentFailed confirmation 3000) = Completed \<and>
   paidAt (markAsPaid paymentFailed confirmation 3000) = Some 3000 \<and>
   (\<exists>m. metadata (markAsPaid paymentFailed confirmation 3000) = Some m \<and>
        m ''invoiceId'' = Some (JString ''inv_1'') \<and>
        m ''card'' = Some (JObject [(''last4'', JString ''0000'')]) \<and>
        m ''receiptUrl'' = Some (JString ''r_1'') \<and>
        m ''chargeId'' = None)"
proof -
  from markAsPaid_spec [of paymentFailed confirmation 3000]
  obtain m where m: "metadata (markAsPaid paymentFailed confirmation 3000) = Some m"
    and k: "\<And>k. m k = (case confirmation k of
                       Some v \<Rightarrow> Some v
                     | None \<Rightarrow> (case metadata paymentFailed of None \<Rightarrow> None
                                | Some old \<Rightarrow> old k))"
    and st: "status (markAsPaid paymentFailed confirmation 3000) = Completed"
      "paidAt (markAsPaid paymentFailed confirmation 3000) = Some 3000"
    by blast
  have "m ''invoiceId'' = Some (JString ''inv_1'')"
    "m ''card'' = Some (JObject [(''last4'', JString ''0000'')])"
    "m ''receiptUrl'' = Some (JString ''r_1'')"
    "m ''chargeId'' = None"
    by (simp_all add: k confirmation_def paymentFailed_def)
  moreover have "status paymentFailed = Failed" by (simp add: paymentFailed_def)
  ultimately show ?thesis using m st by blast
qed

section \<open>Slugs\<close>

text \<open>
  Claim C5. \<open>generateSlug\<close> is a function of its input, and the five steps are the
  ones the claim lists, except that the stripping step keeps every \<open>\w\<close> character:
  the underscore survives. On the name "My_Site 1" the slug is "my_site-1", which the
  slug column's own pattern \<open>[a-z0-9-]+\<close> rejects.
\<close>

theorem generateSlug_keeps_underscore:
  "generateSlug ''My_Site 1'' = ''my_site-1'' \<and>
   \<not> matchesSlugPattern (generateSlug ''My_Site 1'')"
  by code_simp

text \<open>The steps of the chain only drop characters or put hyphens in.\<close>

lemma set_replaceSpaceRuns: "set (replaceSpaceRuns s) \<subseteq> insert (CHR ''-'') (set s)"
proof (induction s rule: replaceSpaceRuns.induct)
  case 1
  then show ?case by simp
next
  case (2 c cs)
  have "set (dropWhile isSpace cs) \<subseteq> set cs" by (auto dest: set_dropWhileD)
  then show ?case using 2 by auto
qed

lemma set_replaceHyphenRuns: "set (replaceHyphenRuns s) \<subseteq> set s"
proof (induction s rule: replaceHyphenRuns.induct)
  case (3 c d cs)
  have "set (dropWhile (\<lambda>x. x = CHR ''-'') cs) \<subseteq> set cs" by (auto dest: set_dropWhileD)
  then show ?case using 3 by auto
qed simp_all

lemma set_strip: "set (stripLeadingHyphens s) \<subseteq> set s" "set (stripTrailingHyphens s) \<subseteq> set s"
  by (auto simp: stripLeadingHyphens_def stripTrailingHyphens_def dest: set_dropWhileD)

lemma toLowerCaseChar_word:
  "isWord (toLowerCaseChar c) \<Longrightarrow> isSlugChar (toLowerCaseChar c) \<or> toLowerCaseChar c = CHR ''_''"
proof -
  assume w: "isWord (toLowerCaseChar c)"
  let ?n = "of_char c :: nat"
  have b: "?n < 256" by simp
  show ?thesis
  proof (cases "(65 \<le> ?n \<and> ?n \<le> 90) \<or> (192 \<le> ?n \<and> ?n \<le> 222 \<and> ?n \<noteq> 215)")
    case True
    then have l: "toLowerCaseChar c = char_of (?n + 32)" by (simp add: toLowerCaseChar_def Let_def)
    have o: "(of_char (char_of (?n + 32) :: char) :: nat) = ?n + 32"
      using True by (auto simp: of_char_of)
    show ?thesis using w True unfolding l isWord_def isSlugChar_def Let_def o by auto
  next
    case False
    then have l: "toLowerCaseChar c = c" by (auto simp: toLowerCaseChar_def Let_def)
    have "(of_char (CHR ''_'') :: nat) = 95" by simp
    then have "of_char c = (95::nat) \<Longrightarrow> c = CHR ''_''"
      by (metis of_char_eq_iff)
    then show ?thesis using w False unfolding l isWord_def isSlugChar_def Let_def by auto
  qed
qed

lemma stripTrailingHyphens_prefix:
  "\<exists>ys. s = stripTrailingHyphens s @ ys"
proof -
  let ?P = "\<lambda>x. x = CHR ''-''"
  have "rev (dropWhile ?P (rev s)) @ rev (takeWhile ?P (rev s)) =
        rev (takeWhile ?P (rev s) @ dropWhile ?P (rev s))"
    by (simp only: rev_append)
  also have "\<dots> = s"
    by (simp only: takeWhile_dropWhile_id rev_rev_ident)
  finally have "s = stripTrailingHyphens s @ rev (takeWhile ?P (rev s))"
    by (simp only: stripTrailingHyphens_def)
  then show ?thesis ..
qed

text \<open>
  What the chain does guarantee for every input: the slug consists of lower-case
  letters, digits, hyphens and underscores, and a non-empty slug neither starts nor
  ends with a hyphen.
\<close>

theorem generateSlug_shape:
  "list_all (\<lambda>c. isSlugChar c \<or> c = CHR ''_'') (generateSlug t) \<and>
   (generateSlug t \<noteq> [] \<longrightarrow>
      hd (generateSlug t) \<noteq> CHR ''-'' \<and> last (generateSlug t) \<noteq> CHR ''-'')"
proof (intro conjI impI)
  let ?a = "replaceSpaceRuns (toLowerCase t)"
  let ?b = "stripNonWord ?a"
  let ?c = "replaceHyphenRuns ?b"
  let ?d = "stripLeadingHyphens ?c"
  have g: "generateSlug t = stripTrailingHyphens ?d" by (simp add: generateSlug_def)
  have "set (generateSlug t) \<subseteq> set ?b"
    unfolding g using set_strip [of ?c] set_strip(2) [of ?d] set_replaceHyphenRuns [of ?b]
    by blast
  moreover have "\<forall>c\<in>set ?b. isSlugChar c \<or> c = CHR ''_''"
  proof
    fix c assume "c \<in> set ?b"
    then have c: "c \<in> set ?a" "isWord c \<or> c = CHR ''-''"
      by (simp_all add: stripNonWord_def)
    then have "c = CHR ''-'' \<or> c \<in> set (toLowerCase t)"
      using set_replaceSpaceRuns [of "toLowerCase t"] by auto
    then show "isSlugChar c \<or> c = CHR ''_''"
    proof
      assume "c = CHR ''-''"
      then show ?thesis by (simp add: isSlugChar_def)
    next
      assume "c \<in> set (toLowerCase t)"
      then obtain x where x: "c = toLowerCaseChar x" by (auto simp: toLowerCase_def)
      show ?thesis
      proof (cases "c = CHR ''-''")
        case True
        then show ?thesis by (simp add: isSlugChar_def)
      next
        case False
        then have "isWord c" using c(2) by simp
        then show ?thesis using toLowerCaseChar_word [of x] x by simp
      qed
    qed
  qed
  ultimately show "list_all (\<lambda>c. isSlugChar c \<or> c = CHR ''_'') (generateSlug t)"
    by (auto simp: list_all_iff)
next
  let ?d = "stripLeadingHyphens (replaceHyphenRuns (stripNonWord (replaceSpaceRuns (toLowerCase t))))"
  have g: "generateSlug t = stripTrailingHyphens ?d" by (simp add: generateSlug_def)
  assume ne: "generateSlug t \<noteq> []"
  obtain ys where ys: "?d = generateSlug t @ ys"
    using stripTrailingHyphens_prefix [of ?d] g by auto
  then have dne: "?d \<noteq> []" using ne by auto
  have "\<not> (\<lambda>x. x = CHR ''-'') (hd (dropWhile (\<lambda>x. x = CHR ''-'')
          (replaceHyphenRuns (stripNonWord (replaceSpaceRuns (toLowerCase t))))))"
    using dne unfolding stripLeadingHyphens_def by (rule hd_dropWhile)
  then have "hd ?d \<noteq> CHR ''-''"
    by (simp add: stripLeadingHyphens_def)
  moreover have "hd ?d = hd (generateSlug t @ ys)"
    using ys by (rule arg_cong)
  moreover have "hd (generateSlug t @ ys) = hd (generateSlug t)"
    using ne by (rule hd_append2)
  ultimately show "hd (generateSlug t) \<noteq> CHR ''-''" by simp
  have "rev (dropWhile (\<lambda>x. x = CHR ''-'') (rev ?d)) \<noteq> []"
    using ne by (simp add: g stripTrailingHyphens_def)
  then have "dropWhile (\<lambda>x. x = CHR ''-'') (rev ?d) \<noteq> []"
    by simp
  then have "\<not> (\<lambda>x. x = CHR ''-'') (hd (dropWhile (\<lambda>x. x = CHR ''-'') (rev ?d)))"
    by (rule hd_dropWhile)
  moreover have "last (rev (dropWhile (\<lambda>x. x = CHR ''-'') (rev ?d))) =
                 hd (dropWhile (\<lambda>x. x = CHR ''-'') (rev ?d))"
    by (rule last_rev)
  ultimately show "last (generateSlug t) \<noteq> CHR ''-''"
    by (simp add: g stripTrailingHyphens_def)
qed

text \<open>The title and name branches never touch the slug.\<close>

lemma updatePageTitle_slug: "p_slug (updatePageTitle s ident st rnd t pg) = p_slug pg"
  by (simp add: updatePageTitle_def)

lemma updateSiteName_slug: "s_slug (updateSiteName s ident rnd n st) = s_slug st"
  by (simp add: updateSiteName_def)

text \<open>
  Claim C4. The guard of the regeneration compares the provided title with the title
  of the page after the provided title has been assigned to it, so it never holds:
  renaming the page "About" to "Team" leaves the slug "about" (the regenerated slug
  would be "team"), and renaming the site "Demo" to "Shop" leaves the slug "demo".
\<close>

theorem update_title_keeps_slug:
  "map_sum id (\<lambda>p. (p_title p, p_slug p))
      (fst (updatePage db0 3 (titleDto ''Team'') user0 ''0.abcdefghijk''))
     = Inr (''Team'', ''about'') \<and>
   map (\<lambda>p. (p_title p, p_slug p))
      (pages (snd (updatePage db0 3 (titleDto ''Team'') user0 ''0.abcdefghijk'')))
     = [(''Home'', ''home''), (''Team'', ''about''), (''Contact'', ''contact'')] \<and>
   generateSlug ''Team'' = ''team'' \<and>
   map_sum id (\<lambda>r. (s_name r, s_slug r))
      (fst (updateSite db0 1 (nameDto ''Shop'') user0 ''0.abcdefghijk''))
     = Inr (''Shop'', ''demo'') \<and>
   map (\<lambda>r. (s_name r, s_slug r))
      (sites (snd (updateSite db0 1 (nameDto ''Shop'') user0 ''0.abcdefghijk'')))
     = [(''Shop'', ''demo'')] \<and>
   generateSlug ''Shop'' = ''shop''"
  by code_simp

section \<open>Facts about the persistence layer\<close>

lemma findOne_SomeD:
  "findOne del wh rows = Some r \<Longrightarrow> r \<in> set rows \<and> del r = None \<and> wh r"
  by (auto simp: findOne_def find_Some_iff)


lemma findOwnedSite_SomeD:
  "findOwnedSite s sid usr = Some st \<Longrightarrow>
     st \<in> set (sites s) \<and> s_deletedAt st = None \<and> s_id st = sid \<and> s_ownerId st = u_id usr"
  by (auto simp: findOwnedSite_def dest: findOne_SomeD)

lemma count_pos: "r \<in> set rows \<Longrightarrow> del r = None \<Longrightarrow> wh r \<Longrightarrow> 1 \<le> count del wh rows"
  by (auto simp: count_def Suc_le_eq filter_empty_conv)

lemma result_eqI: "fst r = a \<Longrightarrow> r = (a, snd r)"
  by (cases r) simp

lemma result_InrI: "isl (fst r) = False \<Longrightarrow> r = (Inr (projr (fst r)), snd r)"
  by (cases r; cases "fst r") auto

section \<open>Criteria that name a relation by a bare id\<close>

text \<open>
  A criterion that gives a bare id under a relation name is true of no row, so a
  count under it is 0, a lookup under it finds nothing and an update under it
  changes nothing.
\<close>

lemma siteIs_GivenId [simp]: "siteIs p (GivenId i) = False"
  by (simp add: siteIs_def relationKey_def joinColumnIs_def)

lemma pageIs_GivenId [simp]: "pageIs r (GivenId i) = False"
  by (simp add: pageIs_def relationKey_def joinColumnIs_def)

lemma siteIs_GivenEntity [simp]: "siteIs p (GivenEntity st) \<longleftrightarrow> p_siteId p = s_id st"
  by (simp add: siteIs_def relationKey_def joinColumnIs_def)

lemma count_never [simp]: "count del (\<lambda>r. False) rows = 0"
  by (simp add: count_def)

lemma findOne_never [simp]: "findOne del (\<lambda>r. False) rows = None"
  by (simp add: findOne_def find_None_iff)

lemma update_never [simp]: "update (\<lambda>r. False) f rows = rows"
  by (simp add: update_def)

section \<open>Deleting pages and sections\<close>

text \<open>
  Both deletes count the siblings under a bare id, so the count they compare with 1
  is always 0: every call ends in an error and leaves the database as it was.
\<close>

lemma deletePage_rejects:
  "isl (fst (deletePage s ident usr now)) \<and> snd (deletePage s ident usr now) = s"
  by (simp add: deletePage_def split: option.splits)

lemma deleteSection_rejects:
  "isl (fst (deleteSection s ident usr now)) \<and> snd (deleteSection s ident usr now) = s"
  by (simp add: deleteSection_def split: option.splits)

lemma deletePage_owner:
  assumes "findOne p_deletedAt (\<lambda>p. p_id p = ident) (pages s) = Some pg"
    and "findOwnedSite s (p_siteId pg) usr \<noteq> None"
  shows "fst (deletePage s ident usr now) =
      Inl (BadRequestError ''Cannot delete the last page of a site'')"
  using assms by (auto simp: deletePage_def)

lemma deleteSection_owner:
  assumes "findOne sec_deletedAt (\<lambda>r. sec_id r = ident) (sections s) = Some sec"
    and "sectionSiteId s sec \<noteq> None"
    and "findOwnedSite s (the (sectionSiteId s sec)) usr \<noteq> None"
  shows "fst (deleteSection s ident usr now) =
      Inl (BadRequestError ''Cannot delete the last section of a page'')"
  using assms by (auto simp: deleteSection_def)

text \<open>
  Claim C7. Deleting a page that is the only live page of its site, or a section that
  is the only live section of its page, ends in an error and leaves the database as it
  was, so the live child count stays 1; for a user who owns the site the error is the
  \<open>BadRequestError\<close> of the last-child guard.
\<close>

theorem delete_last_child_rejected:
  "(findOne p_deletedAt (\<lambda>p. p_id p = ident) (pages s) = Some pg \<and>
    count p_deletedAt (\<lambda>p. p_siteId p = p_siteId pg) (pages s) \<le> 1 \<longrightarrow>
      isl (fst (deletePage s ident usr now)) \<and>
      snd (deletePage s ident usr now) = s \<and>
      count p_deletedAt (\<lambda>p. p_siteId p = p_siteId pg)
        (pages (snd (deletePage s ident usr now))) = 1 \<and>
      (findOwnedSite s (p_siteId pg) usr \<noteq> None \<longrightarrow>
         fst (deletePage s ident usr now) =
           Inl (BadRequestError ''Cannot delete the last page of a site''))) \<and>
   (findOne sec_deletedAt (\<lambda>r. sec_id r = sident) (sections s) = Some sec \<and>
    count sec_deletedAt (\<lambda>r. sec_pageId r = sec_pageId sec) (sections s) \<le> 1 \<longrightarrow>
      isl (fst (deleteSection s sident usr now)) \<and>
      snd (deleteSection s sident usr now) = s \<and>
      count sec_deletedAt (\<lambda>r. sec_pageId r = sec_pageId sec)
        (sections (snd (deleteSection s sident usr now))) = 1 \<and>
      (sectionSiteId s sec \<noteq> None \<and>
       findOwnedSite s (the (sectionSiteId s sec)) usr \<noteq> None \<longrightarrow>
         fst (deleteSection s sident usr now) =
           Inl (BadRequestError ''Cannot delete the last section of a page'')))"
proof (intro conjI impI)
  assume a: "findOne p_deletedAt (\<lambda>p. p_id p = ident) (pages s) = Some pg \<and>
    count p_deletedAt (\<lambda>p. p_siteId p = p_siteId pg) (pages s) \<le> 1"
  show "isl (fst (deletePage s ident usr now))"
    by (simp add: deletePage_rejects)
  show 2: "snd (deletePage s ident usr now) = s"
    by (simp add: deletePage_rejects)
  have "1 \<le> count p_deletedAt (\<lambda>p. p_siteId p = p_siteId pg) (pages s)"
    using a findOne_SomeD [of p_deletedAt "\<lambda>p. p_id p = ident" "pages s" pg]
    by (intro count_pos [of pg]) auto
  then show "count p_deletedAt (\<lambda>p. p_siteId p = p_siteId pg)
      (pages (snd (deletePage s ident usr now))) = 1"
    using a 2 by simp
  show "fst (deletePage s ident usr now) =
      Inl (BadRequestError ''Cannot delete the last page of a site'')"
    if "findOwnedSite s (p_siteId pg) usr \<noteq> None"
    using a that by (simp add: deletePage_owner)
next
  assume a: "findOne sec_deletedAt (\<lambda>r. sec_id r = sident) (sections s) = Some sec \<and>
    count sec_deletedAt (\<lambda>r. sec_pageId r = sec_pageId sec) (sections s) \<le> 1"
  show "isl (fst (deleteSection s sident usr now))"
    by (simp add: deleteSection_rejects)
  show 2: "snd (deleteSection s sident usr now) = s"
    by (simp add: deleteSection_rejects)
  have "1 \<le> count sec_deletedAt (\<lambda>r. sec_pageId r = sec_pageId sec) (sections s)"
    using a findOne_SomeD [of sec_deletedAt "\<lambda>r. sec_id r = sident" "sections s" sec]
    by (intro count_pos [of sec]) auto
  then show "count sec_deletedAt (\<lambda>r. sec_pageId r = sec_pageId sec)
        (sections (snd (deleteSection s sident usr now))) = 1"
    using a 2 by simp
  show "fst (deleteSection s sident usr now) =
      Inl (BadRequestError ''Cannot delete the last section of a page'')"
    if "sectionSiteId s sec \<noteq> None \<and> findOwnedSite s (the (sectionSiteId s sec)) usr \<noteq> None"
    using a that by (simp add: deleteSection_owner)
qed

theorem delete_last_child_rejected_witness:
  "fst (deletePage dbLast 2 user0 9) =
      Inl (BadRequestError ''Cannot delete the last page of a site'') \<and>
   snd (deletePage dbLast 2 user0 9) = dbLast \<and>
   count p_deletedAt (\<lambda>p. p_siteId p = p_siteId (mkPage 2 ''Home'' ''home'' True 0))
      (pages (snd (deletePage dbLast 2 user0 9))) = 1 \<and>
   fst (deleteSection dbLast 5 user0 9) =
      Inl (BadRequestError ''Cannot delete the last section of a page'') \<and>
   snd (deleteSection dbLast 5 user0 9) = dbLast \<and>
   count sec_deletedAt (\<lambda>r. sec_pageId r = sec_pageId (mkSection 5 2 0))
      (sections (snd (deleteSection dbLast 5 user0 9))) = 1"
proof -
  have p: "findOne p_deletedAt (\<lambda>p. p_id p = 2) (pages dbLast) =
      Some (mkPage 2 ''Home'' ''home'' True 0)"
    by (simp add: dbLast_def findOne_def mkPage_def)
  have pc: "count p_deletedAt (\<lambda>p. p_siteId p = p_siteId (mkPage 2 ''Home'' ''home'' True 0))
      (pages dbLast) \<le> 1"
    by (simp add: dbLast_def count_def mkPage_def)
  have po: "findOwnedSite dbLast (p_siteId (mkPage 2 ''Home'' ''home'' True 0)) user0 \<noteq> None"
    by (simp add: dbLast_def findOwnedSite_def findOne_def mkPage_def site0_def user0_def)
  have q: "findOne sec_deletedAt (\<lambda>r. sec_id r = 5) (sections dbLast) = Some (mkSection 5 2 0)"
    by (simp add: dbLast_def findOne_def mkSection_def)
  have qc: "count sec_deletedAt (\<lambda>r. sec_pageId r = sec_pageId (mkSection 5 2 0))
      (sections dbLast) \<le> 1"
    by (simp add: dbLast_def count_def mkSection_def)
  have qo: "sectionSiteId dbLast (mkSection 5 2 0) \<noteq> None \<and>
      findOwnedSite dbLast (the (sectionSiteId dbLast (mkSection 5 2 0))) user0 \<noteq> None"
    by (simp add: dbLast_def sectionSiteId_def mkSection_def mkPage_def findOwnedSite_def
        findOne_def site0_def user0_def)
  show ?thesis
    using delete_last_child_rejected [of 2 dbLast "mkPage 2 ''Home'' ''home'' True 0" user0 9
        5 "mkSection 5 2 0"] p pc po q qc qo
    by blast
qed


section \<open>Slug collisions\<close>











section \<open>Reordering\<close>

lemma indexOf_nth: "distinct xs \<Longrightarrow> k < length xs \<Longrightarrow> indexOf xs (xs ! k) = k"
proof (induction xs arbitrary: k)
  case Nil
  then show ?case by simp
next
  case (Cons x xs)
  then show ?case by (cases k) auto
qed

lemma reorder_fold:
  assumes keep: "\<And>k r. ident (f k r) = ident r"
  shows "distinct ids \<Longrightarrow>
    foldl (\<lambda>rows (index, i). update (\<lambda>r. ident r = i) (f index) rows) rows (enumerate n ids) =
    map (\<lambda>r. if ident r \<in> set ids then f (n + indexOf ids (ident r)) r else r) rows"
proof (induction ids arbitrary: n rows)
  case Nil
  then show ?case by simp
next
  case (Cons a ids)
  have "foldl (\<lambda>rows (index, i). update (\<lambda>r. ident r = i) (f index) rows) rows
          (enumerate n (a # ids)) =
        foldl (\<lambda>rows (index, i). update (\<lambda>r. ident r = i) (f index) rows)
          (update (\<lambda>r. ident r = a) (f n) rows) (enumerate (Suc n) ids)"
    by simp
  also have "\<dots> = map (\<lambda>r. if ident r \<in> set ids then f (Suc n + indexOf ids (ident r)) r else r)
          (update (\<lambda>r. ident r = a) (f n) rows)"
    using Cons.prems by (intro Cons.IH) simp
  also have "\<dots> = map (\<lambda>r. if ident r \<in> set (a # ids)
                           then f (n + indexOf (a # ids) (ident r)) r else r) rows"
    using Cons.prems by (auto simp: update_def keep)
  finally show ?case .
qed

text \<open>
  With distinct keys, the query \<open>id IN ids\<close> returns as many rows as the list has
  entries exactly when the list has no duplicate and every entry is a live row.
\<close>

lemma found_length_iff:
  assumes d: "distinct (map ident rows)"
  shows "length (findMany del (\<lambda>r. ident r \<in> set ids) rows) = length ids \<longleftrightarrow>
         distinct ids \<and> (\<forall>i\<in>set ids. \<exists>r\<in>set rows. ident r = i \<and> del r = None)"
proof -
  let ?found = "findMany del (\<lambda>r. ident r \<in> set ids) rows"
  let ?A = "{i \<in> set ids. \<exists>r\<in>set rows. ident r = i \<and> del r = None}"
  have df: "distinct (map ident ?found)"
    unfolding findMany_def using d by (rule distinct_map_filter)
  have "set (map ident ?found) = ?A"
    by (auto simp: findMany_def)
  then have len: "length ?found = card ?A"
    using distinct_card [OF df] by simp
  have sub: "?A \<subseteq> set ids" by blast
  have le: "card ?A \<le> card (set ids)"
    by (rule card_mono [OF _ sub]) simp
  show ?thesis
  proof
    assume eq: "length ?found = length ids"
    then have "length ids \<le> card (set ids)" using len le by simp
    then have c: "card (set ids) = length ids"
      using card_length [of ids] by simp
    then have di: "distinct ids" by (rule card_distinct)
    have "card ?A = card (set ids)" using eq len c by simp
    then have "?A = set ids"
      using sub by (intro card_subset_eq) simp_all
    then show "distinct ids \<and> (\<forall>i\<in>set ids. \<exists>r\<in>set rows. ident r = i \<and> del r = None)"
      using di by blast
  next
    assume a: "distinct ids \<and> (\<forall>i\<in>set ids. \<exists>r\<in>set rows. ident r = i \<and> del r = None)"
    then have "?A = set ids" by blast
    then show "length ?found = length ids"
      using len a by (simp add: distinct_card)
  qed
qed

lemma checkPageAccess_None:
  "checkPageAccess s usr rows = None \<longleftrightarrow>
     (\<forall>p\<in>set rows. findOwnedSite s (p_siteId p) usr \<noteq> None)"
  by (induction rows) (auto split: option.splits)

lemma checkSectionAccess_None:
  "checkSectionAccess s usr rows = None \<longleftrightarrow>
     (\<forall>r\<in>set rows. \<exists>sid. sectionSiteId s r = Some sid \<and> findOwnedSite s sid usr \<noteq> None)"
  by (induction rows) (auto split: option.splits)

lemma distinct_key_eq:
  "distinct (map ident rows) \<Longrightarrow> x \<in> set rows \<Longrightarrow> y \<in> set rows \<Longrightarrow> ident x = ident y \<Longrightarrow> x = y"
  by (meson distinct_map inj_onD)

lemma pageListOk_iff:
  "pageListOk s usr ids \<longleftrightarrow>
     ids \<noteq> [] \<and> distinct ids \<and>
     (\<forall>i\<in>set ids. \<exists>p\<in>set (pages s).
        p_id p = i \<and> p_deletedAt p = None \<and> findOwnedSite s (p_siteId p) usr \<noteq> None)"
  by (simp add: pageListOk_def list_all_iff list_ex_iff)

lemma case_option_ex:
  "(case x of None \<Rightarrow> False | Some v \<Rightarrow> P v) \<longleftrightarrow> (\<exists>v. x = Some v \<and> P v)"
  by (cases x) auto

lemma sectionListOk_iff:
  "sectionListOk s usr ids \<longleftrightarrow>
     ids \<noteq> [] \<and> distinct ids \<and>
     (\<forall>i\<in>set ids. \<exists>r\<in>set (sections s).
        sec_id r = i \<and> sec_deletedAt r = None \<and>
        (\<exists>sid. sectionSiteId s r = Some sid \<and> findOwnedSite s sid usr \<noteq> None))"
  by (simp add: sectionListOk_def list_all_iff list_ex_iff case_option_ex)

lemma reorderPages_accept:
  assumes d: "distinct (map p_id (pages s))" and ids: "pageIds dto = Some ids"
    and ok: "pageListOk s usr ids"
  shows "reorderPages s dto usr =
    (Inr (), s\<lparr>pages := map (\<lambda>p. if p_id p \<in> set ids
                                 then p\<lparr>p_order := int (indexOf ids (p_id p))\<rparr> else p) (pages s)\<rparr>)"
proof -
  let ?found = "findMany p_deletedAt (\<lambda>p. p_id p \<in> set ids) (pages s)"
  have len: "length ?found = length ids"
    using ok unfolding pageListOk_iff by (subst found_length_iff [OF d]) blast
  have "\<forall>p\<in>set ?found. findOwnedSite s (p_siteId p) usr \<noteq> None"
  proof
    fix p assume "p \<in> set ?found"
    then have p: "p \<in> set (pages s)" "p_id p \<in> set ids" by (auto simp: findMany_def)
    then obtain q where q: "q \<in> set (pages s)" "p_id q = p_id p"
      "findOwnedSite s (p_siteId q) usr \<noteq> None"
      using ok unfolding pageListOk_iff by blast
    then have "q = p" using distinct_key_eq [OF d q(1) p(1)] by simp
    then show "findOwnedSite s (p_siteId p) usr \<noteq> None" using q by simp
  qed
  then have acc: "checkPageAccess s usr ?found = None"
    by (simp add: checkPageAccess_None)
  have fold: "foldl (\<lambda>rows (index, pageId).
                 update (\<lambda>p. p_id p = pageId) (\<lambda>p. p\<lparr>p_order := int index\<rparr>) rows)
               (pages s) (enumerate 0 ids) =
             map (\<lambda>p. if p_id p \<in> set ids
                       then p\<lparr>p_order := int (indexOf ids (p_id p))\<rparr> else p) (pages s)"
    using ok reorder_fold [of p_id "\<lambda>k p. p\<lparr>p_order := int k\<rparr>" ids "pages s" 0]
    by (simp add: pageListOk_iff)
  show ?thesis
    using ids ok len acc fold by (simp add: reorderPages_def pageListOk_iff)
qed

lemma reorderPages_reject:
  assumes d: "distinct (map p_id (pages s))"
    and no: "\<forall>ids. pageIds dto = Some ids \<longrightarrow> \<not> pageListOk s usr ids"
  shows "isl (fst (reorderPages s dto usr)) \<and> snd (reorderPages s dto usr) = s"
proof (cases "pageIds dto")
  case None
  then show ?thesis by (simp add: reorderPages_def)
next
  case (Some ids)
  let ?found = "findMany p_deletedAt (\<lambda>p. p_id p \<in> set ids) (pages s)"
  show ?thesis
  proof (cases "ids \<noteq> [] \<and> length ?found = length ids")
    case False
    then show ?thesis using Some by (auto simp: reorderPages_def)
  next
    case True
    then have live: "distinct ids"
      "\<forall>i\<in>set ids. \<exists>p\<in>set (pages s). p_id p = i \<and> p_deletedAt p = None"
      using found_length_iff [OF d, of p_deletedAt ids] by blast+
    have "\<not> (\<forall>p\<in>set ?found. findOwnedSite s (p_siteId p) usr \<noteq> None)"
    proof
      assume all: "\<forall>p\<in>set ?found. findOwnedSite s (p_siteId p) usr \<noteq> None"
      have "pageListOk s usr ids"
        unfolding pageListOk_iff
      proof (intro conjI ballI)
        show "ids \<noteq> []" using True by simp
        show "distinct ids" by (rule live(1))
        fix i assume i: "i \<in> set ids"
        then obtain p where p: "p \<in> set (pages s)" "p_id p = i" "p_deletedAt p = None"
          using live(2) by blast
        then have "p \<in> set ?found" using i by (simp add: findMany_def)
        then have "findOwnedSite s (p_siteId p) usr \<noteq> None" using all by blast
        then show "\<exists>p\<in>set (pages s). p_id p = i \<and> p_deletedAt p = None \<and>
            findOwnedSite s (p_siteId p) usr \<noteq> None"
          using p by blast
      qed
      then show False using no Some by blast
    qed
    then have "checkPageAccess s usr ?found \<noteq> None"
      by (simp add: checkPageAccess_None)
    then show ?thesis using Some True by (auto simp: reorderPages_def)
  qed
qed

lemma reorderSections_accept:
  assumes d: "distinct (map sec_id (sections s))" and ids: "sectionIds dto = Some ids"
    and ok: "sectionListOk s usr ids"
  shows "reorderSections s dto usr =
    (Inr (), s\<lparr>sections := map (\<lambda>p. if sec_id p \<in> set ids
                                 then p\<lparr>sec_order := int (indexOf ids (sec_id p))\<rparr> else p) (sections s)\<rparr>)"
proof -
  let ?found = "findMany sec_deletedAt (\<lambda>p. sec_id p \<in> set ids) (sections s)"
  have len: "length ?found = length ids"
    using ok unfolding sectionListOk_iff by (subst found_length_iff [OF d]) blast
  have "\<forall>p\<in>set ?found. (\<exists>sid. sectionSiteId s p = Some sid \<and> findOwnedSite s sid usr \<noteq> None)"
  proof
    fix p assume "p \<in> set ?found"
    then have p: "p \<in> set (sections s)" "sec_id p \<in> set ids" by (auto simp: findMany_def)
    then obtain q where q: "q \<in> set (sections s)" "sec_id q = sec_id p"
      "(\<exists>sid. sectionSiteId s q = Some sid \<and> findOwnedSite s sid usr \<noteq> None)"
      using ok unfolding sectionListOk_iff by blast
    then have "q = p" using distinct_key_eq [OF d q(1) p(1)] by simp
    then show "(\<exists>sid. sectionSiteId s p = Some sid \<and> findOwnedSite s sid usr \<noteq> None)" using q by simp
  qed
  then have acc: "checkSectionAccess s usr ?found = None"
    by (simp add: checkSectionAccess_None)
  have fold: "foldl (\<lambda>rows (index, sectionId).
                 update (\<lambda>p. sec_id p = sectionId) (\<lambda>p. p\<lparr>sec_order := int index\<rparr>) rows)
               (sections s) (enumerate 0 ids) =
             map (\<lambda>p. if sec_id p \<in> set ids
                       then p\<lparr>sec_order := int (indexOf ids (sec_id p))\<rparr> else p) (sections s)"
    using ok reorder_fold [of sec_id "\<lambda>k p. p\<lparr>sec_order := int k\<rparr>" ids "sections s" 0]
    by (simp add: sectionListOk_iff)
  show ?thesis
    using ids ok len acc fold by (simp add: reorderSections_def sectionListOk_iff)
qed

lemma reorderSections_reject:
  assumes d: "distinct (map sec_id (sections s))"
    and no: "\<forall>ids. sectionIds dto = Some ids \<longrightarrow> \<not> sectionListOk s usr ids"
  shows "isl (fst (reorderSections s dto usr)) \<and> snd (reorderSections s dto usr) = s"
proof (cases "sectionIds dto")
  case None
  then show ?thesis by (simp add: reorderSections_def)
next
  case (Some ids)
  let ?found = "findMany sec_deletedAt (\<lambda>p. sec_id p \<in> set ids) (sections s)"
  show ?thesis
  proof (cases "ids \<noteq> [] \<and> length ?found = length ids")
    case False
    then show ?thesis using Some by (auto simp: reorderSections_def)
  next
    case True
    then have live: "distinct ids"
      "\<forall>i\<in>set ids. \<exists>p\<in>set (sections s). sec_id p = i \<and> sec_deletedAt p = None"
      using found_length_iff [OF d, of sec_deletedAt ids] by blast+
    have "\<not> (\<forall>p\<in>set ?found. (\<exists>sid. sectionSiteId s p = Some sid \<and> findOwnedSite s sid usr \<noteq> None))"
    proof
      assume all: "\<forall>p\<in>set ?found. (\<exists>sid. sectionSiteId s p = Some sid \<and> findOwnedSite s sid usr \<noteq> None)"
      have "sectionListOk s usr ids"
        unfolding sectionListOk_iff
      proof (intro conjI ballI)
        show "ids \<noteq> []" using True by simp
        show "distinct ids" by (rule live(1))
        fix i assume i: "i \<in> set ids"
        then obtain p where p: "p \<in> set (sections s)" "sec_id p = i" "sec_deletedAt p = None"
          using live(2) by blast
        then have "p \<in> set ?found" using i by (simp add: findMany_def)
        then have "(\<exists>sid. sectionSiteId s p = Some sid \<and> findOwnedSite s sid usr \<noteq> None)" using all by blast
        then show "\<exists>p\<in>set (sections s). sec_id p = i \<and> sec_deletedAt p = None \<and>
            (\<exists>sid. sectionSiteId s p = Some sid \<and> findOwnedSite s sid usr \<noteq> None)"
          using p by blast
      qed
      then show False using no Some by blast
    qed
    then have "checkSectionAccess s usr ?found \<noteq> None"
      by (simp add: checkSectionAccess_None)
    then show ?thesis using Some True by (auto simp: reorderSections_def)
  qed
qed

text \<open>
  Claim C3, as the code has it. Primary keys are distinct. A reorder request is
  accepted exactly when its id list is not empty, has no duplicate, and every listed
  id is a live row whose site the user owns; the list need not cover its scope nor
  stay within one scope. On acceptance every listed row gets its index in the list as
  order (so the listed rows carry 0..N-1) and no other row and no other field
  changes; otherwise the request ends in an error and the database is as it was.
\<close>

theorem reorder_spec:
  assumes dp: "distinct (map p_id (pages s))" and ds: "distinct (map sec_id (sections s))"
  shows
   "(\<forall>ids. pageIds dto = Some ids \<and> pageListOk s usr ids \<longrightarrow>
       reorderPages s dto usr =
         (Inr (), s\<lparr>pages := map (\<lambda>p. if p_id p \<in> set ids
                       then p\<lparr>p_order := int (indexOf ids (p_id p))\<rparr> else p) (pages s)\<rparr>) \<and>
       (\<forall>k<length ids. \<exists>p\<in>set (pages (snd (reorderPages s dto usr))).
           p_id p = ids ! k \<and> p_order p = int k)) \<and>
    ((\<forall>ids. pageIds dto = Some ids \<longrightarrow> \<not> pageListOk s usr ids) \<longrightarrow>
       isl (fst (reorderPages s dto usr)) \<and> snd (reorderPages s dto usr) = s) \<and>
    (\<forall>ids. sectionIds sdto = Some ids \<and> sectionListOk s usr ids \<longrightarrow>
       reorderSections s sdto usr =
         (Inr (), s\<lparr>sections := map (\<lambda>r. if sec_id r \<in> set ids
                       then r\<lparr>sec_order := int (indexOf ids (sec_id r))\<rparr> else r) (sections s)\<rparr>) \<and>
       (\<forall>k<length ids. \<exists>r\<in>set (sections (snd (reorderSections s sdto usr))).
           sec_id r = ids ! k \<and> sec_order r = int k)) \<and>
    ((\<forall>ids. sectionIds sdto = Some ids \<longrightarrow> \<not> sectionListOk s usr ids) \<longrightarrow>
       isl (fst (reorderSections s sdto usr)) \<and> snd (reorderSections s sdto usr) = s)"
proof (intro conjI allI impI)
  fix ids assume a: "pageIds dto = Some ids \<and> pageListOk s usr ids"
  then show r: "reorderPages s dto usr =
         (Inr (), s\<lparr>pages := map (\<lambda>p. if p_id p \<in> set ids
                       then p\<lparr>p_order := int (indexOf ids (p_id p))\<rparr> else p) (pages s)\<rparr>)"
    using reorderPages_accept [OF dp] by blast
  fix k assume k: "k < length ids"
  then have "ids ! k \<in> set ids" by simp
  then obtain p where p: "p \<in> set (pages s)" "p_id p = ids ! k"
    using a unfolding pageListOk_iff by blast
  have "indexOf ids (ids ! k) = k"
    using a k by (simp add: pageListOk_iff indexOf_nth)
  then have "p\<lparr>p_order := int k\<rparr> \<in> set (pages (snd (reorderPages s dto usr)))"
    using p k unfolding r by (force simp: image_iff)
  then show "\<exists>p\<in>set (pages (snd (reorderPages s dto usr))). p_id p = ids ! k \<and> p_order p = int k"
    using p(2) by (intro bexI [of _ "p\<lparr>p_order := int k\<rparr>"]) simp_all
next
  assume "\<forall>ids. pageIds dto = Some ids \<longrightarrow> \<not> pageListOk s usr ids"
  then show "isl (fst (reorderPages s dto usr))" "snd (reorderPages s dto usr) = s"
    using reorderPages_reject [OF dp] by blast+
next
  fix ids assume a: "sectionIds sdto = Some ids \<and> sectionListOk s usr ids"
  then show r: "reorderSections s sdto usr =
         (Inr (), s\<lparr>sections := map (\<lambda>r. if sec_id r \<in> set ids
                       then r\<lparr>sec_order := int (indexOf ids (sec_id r))\<rparr> else r) (sections s)\<rparr>)"
    using reorderSections_accept [OF ds] by blast
  fix k assume k: "k < length ids"
  then have "ids ! k \<in> set ids" by simp
  then obtain p where p: "p \<in> set (sections s)" "sec_id p = ids ! k"
    using a unfolding sectionListOk_iff by blast
  have "indexOf ids (ids ! k) = k"
    using a k by (simp add: sectionListOk_iff indexOf_nth)
  then have "p\<lparr>sec_order := int k\<rparr> \<in> set (sections (snd (reorderSections s sdto usr)))"
    using p k unfolding r by (force simp: image_iff)
  then show "\<exists>r\<in>set (sections (snd (reorderSections s sdto usr))).
      sec_id r = ids ! k \<and> sec_order r = int k"
    using p(2) by (intro bexI [of _ "p\<lparr>sec_order := int k\<rparr>"]) simp_all
next
  assume "\<forall>ids. sectionIds sdto = Some ids \<longrightarrow> \<not> sectionListOk s usr ids"
  then show "isl (fst (reorderSections s sdto usr))" "snd (reorderSections s sdto usr) = s"
    using reorderSections_reject [OF ds] by blast+
qed

lemma db0_keys: "distinct (map p_id (pages db0))" "distinct (map sec_id (sections db0))"
  by (simp_all add: db0_def mkPage_def mkSection_def)

theorem reorder_spec_witness:
  "reorderPages db0 (pagesDto [4, 2, 3]) user0 =
     (Inr (), db0\<lparr>pages := map (\<lambda>p. if p_id p \<in> set [4, 2, 3]
                  then p\<lparr>p_order := int (indexOf [4, 2, 3] (p_id p))\<rparr> else p) (pages db0)\<rparr>) \<and>
   reorderSections db0 (sectionsDto [6, 5]) user0 =
     (Inr (), db0\<lparr>sections := map (\<lambda>r. if sec_id r \<in> set [6, 5]
                  then r\<lparr>sec_order := int (indexOf [6, 5] (sec_id r))\<rparr> else r) (sections db0)\<rparr>) \<and>
   isl (fst (reorderPages db0 (pagesDto [4, 99]) user0)) \<and>
   snd (reorderPages db0 (pagesDto [4, 99]) user0) = db0 \<and>
   isl (fst (reorderSections db0 (sectionsDto [5, 5]) user0)) \<and>
   snd (reorderSections db0 (sectionsDto [5, 5]) user0) = db0"
proof -
  have ok: "pageIds (pagesDto [4, 2, 3]) = Some [4, 2, 3] \<and> pageListOk db0 user0 [4, 2, 3]"
    "sectionIds (sectionsDto [6, 5]) = Some [6, 5] \<and> sectionListOk db0 user0 [6, 5]"
    by code_simp+
  have "\<not> pageListOk db0 user0 [4, 99]" "\<not> sectionListOk db0 user0 [5, 5]"
    by code_simp+
  then have bad: "\<forall>ids. pageIds (pagesDto [4, 99]) = Some ids \<longrightarrow> \<not> pageListOk db0 user0 ids"
    "\<forall>ids. sectionIds (sectionsDto [5, 5]) = Some ids \<longrightarrow> \<not> sectionListOk db0 user0 ids"
    by (simp_all add: pagesDto_def sectionsDto_def)
  show ?thesis
    using reorder_spec [OF db0_keys, of "pagesDto [4, 2, 3]" user0 "sectionsDto [6, 5]"]
      reorder_spec [OF db0_keys, of "pagesDto [4, 99]" user0 "sectionsDto [5, 5]"] ok bad
    by blast
qed

text \<open>
  A list that names one page of a site with three is accepted, and two pages of the
  site then share the order 0.
\<close>

theorem reorder_subset_counterexample:
  "fst (reorderPages db0 (pagesDto [4]) user0) = Inr () \<and>
   map p_id (findMany p_deletedAt (\<lambda>p. p_siteId p = 1) (pages db0)) = [2, 3, 4] \<and>
   set [4] \<noteq> set [2, 3, 4::nat] \<and>
   map (\<lambda>p. (p_id p, p_order p)) (pages (snd (reorderPages db0 (pagesDto [4]) user0)))
     = [(2, 0), (3, 5), (4, 0)]"
  by code_simp

section \<open>Homepages\<close>

text \<open>
  The statements that are to unset the existing homepage give the site as a bare id.
  They change no row.
\<close>

lemma unset_homepage_on_create:
  "update (\<lambda>p. siteIs p (GivenId sid) \<and> isHomepage p) (\<lambda>p. p\<lparr>isHomepage := False\<rparr>) rows = rows"
  by simp

lemma unset_homepage_on_update:
  "update (\<lambda>p. siteIs p (GivenId sid) \<and> isHomepage p \<and> p_id p \<noteq> ident)
     (\<lambda>p. p\<lparr>isHomepage := False\<rparr>) rows = rows"
  by simp

text \<open>
  Claim C1. The site of the examples has the pages Home (id 2, the homepage), About
  (id 3) and Contact (id 4). The owner's update of About with \<open>isHomepage: true\<close> is
  accepted and leaves Home a homepage beside About: two homepages. Creating the page
  "Landing" with \<open>isHomepage: true\<close> is accepted and leaves Home a homepage beside the
  new page (id 8). After both, the site has three homepages.
\<close>

theorem second_homepage:
  "homepageCount db0 1 = 1 \<and>
   isl (fst (updatePage db0 3 (homepageDto True) user0 rnd0)) = False \<and>
   map (\<lambda>p. (p_id p, isHomepage p))
     (pages (snd (updatePage db0 3 (homepageDto True) user0 rnd0))) =
     [(2, True), (3, True), (4, False)] \<and>
   homepageCount (snd (updatePage db0 3 (homepageDto True) user0 rnd0)) 1 = 2 \<and>
   isl (fst (createPage db0 landingDto user0 rnd0)) = False \<and>
   map (\<lambda>p. (p_id p, isHomepage p)) (pages (snd (createPage db0 landingDto user0 rnd0))) =
     [(2, True), (3, False), (4, False), (8, True)] \<and>
   homepageCount (snd (createPage db0 landingDto user0 rnd0)) 1 = 2 \<and>
   homepageCount
     (snd (createPage (snd (updatePage db0 3 (homepageDto True) user0 rnd0))
        landingDto user0 rnd0)) 1 = 3"
  by code_simp

end
